theory Spec2Isabelle
  imports Main "HOL-Library.AList" "HOL-Library.Sublist"
begin

section \<open>The cached LLM client of \<^verbatim>\<open>utils/call_llm.py\<close>\<close>

text \<open>
  The module has one function, \<^verbatim>\<open>call_llm(prompt, use_cache=True)\<close>. It talks to three
  things outside itself: the file \<^verbatim>\<open>llm_cache.json\<close>, the environment variable
  \<^verbatim>\<open>OLLAMA_MODEL\<close> and the Ollama endpoint (\<^verbatim>\<open>ollama.generate\<close>), and it writes log
  records. The embedding makes each of them explicit:
  \<^item> the cache file is a \<open>file_state\<close>: what \<^verbatim>\<open>os.path.exists\<close>, \<^verbatim>\<open>open\<close> and
    \<^verbatim>\<open>json.load\<close> do on it;
  \<^item> a decoded JSON document is a \<open>json\<close> value, with Python's \<^verbatim>\<open>in\<close>, \<^verbatim>\<open>cache[k]\<close>
    and \<^verbatim>\<open>cache[k] = v\<close> on it, each of which may raise;
  \<^item> everything the function does to the outside is recorded, in order, in a trace of
    \<open>event\<close>s (log records, file accesses, endpoint invocations);
  \<^item> an exception that leaves \<^verbatim>\<open>call_llm\<close> is the outcome \<open>Raised\<close>.
\<close>

subsection \<open>Strings\<close>

text \<open>
  A Python \<^verbatim>\<open>str\<close> is a \<open>string\<close>; each \<open>char\<close> stands for one code point below 256.
  On that range \<^verbatim>\<open>str.isspace\<close> holds for the code points 9 to 13, 28 to 32, 133 and
  160, and \<^verbatim>\<open>s.strip()\<close> removes the longest whitespace prefix and suffix.
\<close>

definition py_isspace :: "char \<Rightarrow> bool" where
  "py_isspace c \<longleftrightarrow> (of_char c :: nat) \<in> {9, 10, 11, 12, 13, 28, 29, 30, 31, 32, 133, 160}"

definition strip :: "string \<Rightarrow> string" where
  "strip s = rev (dropWhile py_isspace (rev (dropWhile py_isspace s)))"

subsection \<open>Decoded JSON values and the Python operations used on them\<close>

text \<open>
  What \<^verbatim>\<open>json.load\<close> returns. An object is an association list in insertion order
  (a Python \<^verbatim>\<open>dict\<close>); a number keeps its literal, which no operation here inspects.
\<close>

datatype json =
    JNull
  | JBool bool
  | JNumber string
  | JString string
  | JArray "json list"
  | JObject "(string \<times> json) list"

datatype exn =
    TypeError
  | KeyError
  | UnicodeDecodeError string

text \<open>
  \<^verbatim>\<open>prompt in cache\<close>: key membership on a dict, element equality on a list, substring on
  a str, \<^verbatim>\<open>TypeError\<close> on \<^verbatim>\<open>None\<close>, a bool or a number.
\<close>

fun py_contains :: "string \<Rightarrow> json \<Rightarrow> exn + bool" where
  "py_contains k (JObject kvs) = Inr (k \<in> set (map fst kvs))"
| "py_contains k (JArray xs) = Inr (JString k \<in> set xs)"
| "py_contains k (JString s) = Inr (sublist k s)"
| "py_contains k JNull = Inl TypeError"
| "py_contains k (JBool b) = Inl TypeError"
| "py_contains k (JNumber n) = Inl TypeError"

text \<open>
  \<^verbatim>\<open>cache[prompt]\<close> with a str index: the value on a dict (\<^verbatim>\<open>KeyError\<close> when the key is
  missing), \<^verbatim>\<open>TypeError\<close> on everything else.
\<close>

fun py_getitem :: "json \<Rightarrow> string \<Rightarrow> exn + json" where
  "py_getitem (JObject kvs) k = (case map_of kvs k of None \<Rightarrow> Inl KeyError | Some v \<Rightarrow> Inr v)"
| "py_getitem c k = Inl TypeError"

text \<open>
  \<^verbatim>\<open>cache[prompt] = response_text\<close>: on a dict an existing key keeps its place and a new
  key goes last; \<^verbatim>\<open>TypeError\<close> on everything else.
\<close>

fun py_setitem :: "json \<Rightarrow> string \<Rightarrow> json \<Rightarrow> exn + json" where
  "py_setitem (JObject kvs) k v = Inr (JObject (AList.update k v kvs))"
| "py_setitem c k v = Inl TypeError"

subsection \<open>The outside world\<close>

text \<open>
  The state of \<^verbatim>\<open>llm_cache.json\<close>, by what reading it does:
  \<^item> \<open>Absent\<close>: \<^verbatim>\<open>os.path.exists\<close> is false;
  \<^item> \<open>Unreadable e\<close>: the path exists and \<^verbatim>\<open>open\<close> or the read raises \<^verbatim>\<open>IOError\<close>
    (\<^verbatim>\<open>OSError\<close>) with message \<open>e\<close>;
  \<^item> \<open>Malformed e\<close>: \<^verbatim>\<open>json.load\<close> raises \<^verbatim>\<open>JSONDecodeError\<close> with message \<open>e\<close>;
  \<^item> \<open>Undecodable e\<close>: \<^verbatim>\<open>json.load\<close> raises an exception that is neither of the two,
    as \<^verbatim>\<open>UnicodeDecodeError\<close> (a \<^verbatim>\<open>ValueError\<close>) does on bytes that are not text in the
    default encoding;
  \<^item> \<open>Holds v\<close>: \<^verbatim>\<open>json.load\<close> returns \<open>v\<close>.
\<close>

datatype file_state =
    Absent
  | Unreadable string
  | Malformed string
  | Undecodable string
  | Holds json

text \<open>
  How writing the file can fail with \<^verbatim>\<open>IOError\<close>: \<open>OpenFails e\<close> when
  \<^verbatim>\<open>open(cache_file, 'w')\<close> raises (the file is untouched), \<open>DumpFails e d\<close> when the file
  was opened, hence truncated, and \<^verbatim>\<open>json.dump\<close> or the close raises: what is left is a
  proper prefix of the serialisation, on which \<^verbatim>\<open>json.load\<close> raises \<^verbatim>\<open>JSONDecodeError\<close>
  with message \<open>d\<close>.
\<close>

datatype write_fault = OpenFails string | DumpFails string string

text \<open>
  What the outside does during one call:
  \<^item> \<open>generate model prompt\<close>: the try block around \<^verbatim>\<open>ollama.generate\<close>; \<open>Inl e\<close>
    when an \<^verbatim>\<open>Exception\<close> with \<^verbatim>\<open>str(e) = e\<close> is raised in it, \<open>Inr text\<close> when
    \<^verbatim>\<open>response_data['response']\<close> is \<open>text\<close>;
  \<^item> \<open>meanwhile\<close>: what other processes do to the cache file while the endpoint call
    runs (the file is not locked);
  \<^item> \<open>write_fault\<close>: whether writing the cache file fails.
\<close>

record outside =
  generate :: "string \<Rightarrow> string \<Rightarrow> string + string"
  meanwhile :: "file_state \<Rightarrow> file_state"
  write_fault :: "write_fault option"

datatype level = INFO | WARNING | ERROR

text \<open>
  A log message is an f-string. \<open>Msg s\<close> is the text \<open>s\<close>; \<open>MsgStr s v\<close> is \<open>s\<close> followed
  by Python's \<^verbatim>\<open>str(v)\<close> of a value that is not a str (for a str, \<^verbatim>\<open>str(v)\<close> is the
  value itself).
\<close>

datatype message = Msg string | MsgStr string json

fun fmt :: "string \<Rightarrow> json \<Rightarrow> message" where
  "fmt s (JString v) = Msg (s @ v)"
| "fmt s v = MsgStr s v"

datatype event =
    Log level message
  | PathExists
  | OpenRead
  | OpenWrite
  | Generate string string

record world =
  disk :: file_state
  OLLAMA_MODEL :: "string option"
  trace :: "event list"

datatype outcome = Returned json | Raised exn

definition cache_file :: string where
  "cache_file = ''llm_cache.json''"

definition getenv :: "string option \<Rightarrow> string \<Rightarrow> string" where
  "getenv var dflt = (case var of None \<Rightarrow> dflt | Some v \<Rightarrow> v)"

text \<open>Line 61: \<^verbatim>\<open>os.getenv("OLLAMA_MODEL", "qwen2.5-32k")\<close>.\<close>

definition ollama_model :: "string option \<Rightarrow> string" where
  "ollama_model var = getenv var ''qwen2.5-32k''"

subsection \<open>\<^verbatim>\<open>call_llm\<close>, block by block\<close>

text \<open>
  Lines 41 to 50: \<^verbatim>\<open>cache = {}\<close>, then the load under \<^verbatim>\<open>os.path.exists\<close>, with
  \<^verbatim>\<open>except (json.JSONDecodeError, IOError)\<close>. The result is the value of \<^verbatim>\<open>cache\<close>, or
  the exception that the except clause does not catch.
\<close>

fun load_cache :: "file_state \<Rightarrow> (exn + json) \<times> event list" where
  "load_cache Absent = (Inr (JObject []), [PathExists])"
| "load_cache (Holds v) = (Inr v, [PathExists, OpenRead])"
| "load_cache (Unreadable e) =
     (Inr (JObject []), [PathExists, OpenRead,
        Log WARNING (Msg (''Failed to load cache file '' @ [CHR 0x27] @ cache_file @ [CHR 0x27]
          @ '': '' @ e @ ''. Starting with empty cache.''))])"
| "load_cache (Malformed e) =
     (Inr (JObject []), [PathExists, OpenRead,
        Log WARNING (Msg (''Failed to load cache file '' @ [CHR 0x27] @ cache_file @ [CHR 0x27]
          @ '': '' @ e @ ''. Starting with empty cache.''))])"
| "load_cache (Undecodable e) = (Inl (UnicodeDecodeError e), [PathExists, OpenRead])"

text \<open>Lines 42 to 56: the load and the lookup \<^verbatim>\<open>if prompt in cache: ... return\<close>.\<close>

datatype lookup = Hit json | Miss | Fault exn

definition lookup_cache :: "file_state \<Rightarrow> string \<Rightarrow> lookup \<times> event list" where
  "lookup_cache fs prompt =
     (case load_cache fs of
        (Inl x, t) \<Rightarrow> (Fault x, t)
      | (Inr cache, t) \<Rightarrow>
          (case py_contains prompt cache of
             Inl x \<Rightarrow> (Fault x, t)
           | Inr False \<Rightarrow> (Miss, t)
           | Inr True \<Rightarrow>
               (case py_getitem cache prompt of
                  Inl x \<Rightarrow> (Fault x, t)
                | Inr cached_response \<Rightarrow>
                    (Hit cached_response,
                     t @ [Log INFO (fmt ''RESPONSE (cached): '' cached_response)]))))"

text \<open>
  Lines 59 to 81: the try block. \<open>Inl\<close> is the string returned at line 81, \<open>Inr\<close> is
  \<^verbatim>\<open>response_text\<close>.
\<close>

definition call_ollama :: "outside \<Rightarrow> string option \<Rightarrow> string \<Rightarrow> (string + string) \<times> event list" where
  "call_ollama out var prompt =
     (let model = ollama_model var;
          t = [Log INFO (Msg (''Calling Ollama model: '' @ model)), Generate model prompt]
      in case generate out model prompt of
           Inl e \<Rightarrow>
             (Inl (''Error: Could not get response from Ollama. Details: '' @ e),
              t @ [Log ERROR (Msg (''Error calling Ollama: '' @ e))])
         | Inr response \<Rightarrow>
             (let response_text = strip response
              in (Inr response_text,
                  t @ [Log INFO (Msg (''RESPONSE (Ollama): '' @ response_text))])))"

text \<open>Lines 87 to 93: the reload before saving, with the same except clause.\<close>

fun reload_cache :: "file_state \<Rightarrow> (exn + json) \<times> event list" where
  "reload_cache Absent = (Inr (JObject []), [PathExists])"
| "reload_cache (Holds v) = (Inr v, [PathExists, OpenRead])"
| "reload_cache (Unreadable e) =
     (Inr (JObject []), [PathExists, OpenRead,
        Log WARNING (Msg (''Failed to reload cache before saving: '' @ e
          @ ''. Overwriting might occur.''))])"
| "reload_cache (Malformed e) =
     (Inr (JObject []), [PathExists, OpenRead,
        Log WARNING (Msg (''Failed to reload cache before saving: '' @ e
          @ ''. Overwriting might occur.''))])"
| "reload_cache (Undecodable e) = (Inl (UnicodeDecodeError e), [PathExists, OpenRead])"

text \<open>
  Lines 97 to 101: the write, with \<^verbatim>\<open>except IOError\<close>. The result is the new state of the
  file; after a write that succeeds, reading gives back what was dumped.
\<close>

definition save_cache :: "outside \<Rightarrow> json \<Rightarrow> file_state \<Rightarrow> file_state \<times> event list" where
  "save_cache out cache fs =
     (case write_fault out of
        None \<Rightarrow> (Holds cache, [OpenWrite])
      | Some (OpenFails e) \<Rightarrow>
          (fs, [OpenWrite,
             Log ERROR (Msg (''Failed to save cache to '' @ [CHR 0x27] @ cache_file @ [CHR 0x27]
               @ '': '' @ e))])
      | Some (DumpFails e d) \<Rightarrow>
          (Malformed d, [OpenWrite,
             Log ERROR (Msg (''Failed to save cache to '' @ [CHR 0x27] @ cache_file @ [CHR 0x27]
               @ '': '' @ e))]))"

text \<open>
  Lines 84 to 101: reload, \<^verbatim>\<open>cache[prompt] = response_text\<close>, save. The first component
  is the exception that leaves the block, if any.
\<close>

definition update_cache ::
  "outside \<Rightarrow> file_state \<Rightarrow> string \<Rightarrow> string \<Rightarrow> exn option \<times> file_state \<times> event list" where
  "update_cache out fs prompt response_text =
     (case reload_cache fs of
        (Inl x, t) \<Rightarrow> (Some x, fs, t)
      | (Inr cache, t) \<Rightarrow>
          (case py_setitem cache prompt (JString response_text) of
             Inl x \<Rightarrow> (Some x, fs, t)
           | Inr cache' \<Rightarrow>
               (case save_cache out cache' fs of (fs', t') \<Rightarrow> (None, fs', t @ t'))))"

text \<open>The whole function, lines 26 to 103.\<close>

definition call_llm :: "outside \<Rightarrow> string \<Rightarrow> bool \<Rightarrow> world \<Rightarrow> outcome \<times> world" where
  "call_llm out prompt use_cache w =
     (let t0 = [Log INFO (Msg (''PROMPT: '' @ prompt))]
      in case (if use_cache then lookup_cache (disk w) prompt else (Miss, [])) of
           (Hit cached_response, t1) \<Rightarrow>
             (Returned cached_response, w\<lparr>trace := trace w @ t0 @ t1\<rparr>)
         | (Fault x, t1) \<Rightarrow> (Raised x, w\<lparr>trace := trace w @ t0 @ t1\<rparr>)
         | (Miss, t1) \<Rightarrow>
             (case call_ollama out (OLLAMA_MODEL w) prompt of
                (Inl err, t2) \<Rightarrow>
                  (Returned (JString err),
                   w\<lparr>disk := meanwhile out (disk w), trace := trace w @ t0 @ t1 @ t2\<rparr>)
              | (Inr response_text, t2) \<Rightarrow>
                  if use_cache then
                    (case update_cache out (meanwhile out (disk w)) prompt response_text of
                       (Some x, fs, t3) \<Rightarrow>
                         (Raised x, w\<lparr>disk := fs, trace := trace w @ t0 @ t1 @ t2 @ t3\<rparr>)
                     | (None, fs, t3) \<Rightarrow>
                         (Returned (JString response_text),
                          w\<lparr>disk := fs, trace := trace w @ t0 @ t1 @ t2 @ t3\<rparr>))
                  else
                    (Returned (JString response_text),
                     w\<lparr>disk := meanwhile out (disk w), trace := trace w @ t0 @ t1 @ t2\<rparr>)))"

subsection \<open>What a call did\<close>

text \<open>
  The events a call appended to the trace, and the kinds of event the properties speak of:
  endpoint invocations, accesses to the cache file, warnings.
\<close>

definition events_of :: "outside \<Rightarrow> string \<Rightarrow> bool \<Rightarrow> world \<Rightarrow> event list" where
  "events_of out prompt use_cache w =
     drop (length (trace w)) (trace (snd (call_llm out prompt use_cache w)))"

fun is_generate :: "event \<Rightarrow> bool" where
  "is_generate (Generate m p) = True"
| "is_generate e = False"

fun is_file_access :: "event \<Rightarrow> bool" where
  "is_file_access PathExists = True"
| "is_file_access OpenRead = True"
| "is_file_access OpenWrite = True"
| "is_file_access e = False"

fun is_warning :: "event \<Rightarrow> bool" where
  "is_warning (Log WARNING m) = True"
| "is_warning e = False"

text \<open>
  The call reaches the endpoint when caching is disabled or the lookup is a miss.
\<close>

definition live_call :: "string \<Rightarrow> bool \<Rightarrow> world \<Rightarrow> bool" where
  "live_call prompt use_cache w \<longleftrightarrow>
     \<not> use_cache \<or> fst (lookup_cache (disk w) prompt) = Miss"

text \<open>The message of the \<^verbatim>\<open>IOError\<close> a failing write raises.\<close>

fun fault_message :: "write_fault \<Rightarrow> string" where
  "fault_message (OpenFails e) = e"
| "fault_message (DumpFails e d) = e"

subsection \<open>Concrete environments for the examples\<close>

text \<open>
  An endpoint that answers \<open>raw\<close> to everything, one that fails with message \<open>e\<close>, both
  with nobody else touching the cache file and no write failure; and a world with a given
  cache file, \<^verbatim>\<open>OLLAMA_MODEL\<close> unset and an empty trace.
\<close>

definition answering :: "string \<Rightarrow> outside" where
  "answering raw =
     \<lparr>generate = (\<lambda>model prompt. Inr raw), meanwhile = (\<lambda>fs. fs), write_fault = None\<rparr>"

definition failing :: "string \<Rightarrow> outside" where
  "failing e =
     \<lparr>generate = (\<lambda>model prompt. Inl e), meanwhile = (\<lambda>fs. fs), write_fault = None\<rparr>"

definition fresh :: "file_state \<Rightarrow> world" where
  "fresh fs = \<lparr>disk = fs, OLLAMA_MODEL = None, trace = []\<rparr>"

text \<open>An endpoint that answers \<open>raw\<close> while the cache file cannot be opened for writing.\<close>

definition denying :: "string \<Rightarrow> string \<Rightarrow> outside" where
  "denying raw e =
     \<lparr>generate = (\<lambda>model prompt. Inr raw), meanwhile = (\<lambda>fs. fs),
      write_fault = Some (OpenFails e)\<rparr>"

text \<open>
  An endpoint that answers \<open>raw\<close> while another process leaves the cache file in state
  \<open>fs\<close>.
\<close>

definition interfering :: "string \<Rightarrow> file_state \<Rightarrow> outside" where
  "interfering raw fs =
     \<lparr>generate = (\<lambda>model prompt. Inr raw), meanwhile = (\<lambda>before. fs), write_fault = None\<rparr>"

section \<open>\<open>strip\<close> trims\<close>

text \<open>
  \<open>strip\<close> removes whitespace from both ends and nothing else: the input is a run of
  whitespace, the result, and another run of whitespace, and a result that is not empty
  neither starts nor ends with whitespace.
\<close>

lemma strip_splits:
  "raw = takeWhile py_isspace raw @ strip raw
     @ rev (takeWhile py_isspace (rev (dropWhile py_isspace raw)))"
proof -
  let ?d = "dropWhile py_isspace raw"
  have "rev (takeWhile py_isspace (rev ?d) @ dropWhile py_isspace (rev ?d)) = rev (rev ?d)"
    by (simp only: takeWhile_dropWhile_id)
  then have "?d = strip raw @ rev (takeWhile py_isspace (rev ?d))"
    by (simp only: rev_append rev_rev_ident strip_def)
  moreover have "raw = takeWhile py_isspace raw @ ?d"
    by simp
  ultimately show ?thesis
    by simp
qed

lemma strip_ends:
  assumes "strip raw \<noteq> []"
  shows "\<not> py_isspace (hd (strip raw))" and "\<not> py_isspace (last (strip raw))"
proof -
  let ?d = "dropWhile py_isspace raw"
  let ?e = "dropWhile py_isspace (rev ?d)"
  from assms have e: "?e \<noteq> []"
    by (simp add: strip_def)
  then have d: "?d \<noteq> []"
    by (metis dropWhile.simps(1) rev.simps(1))
  have "last (strip raw) = hd ?e"
    using e by (simp add: strip_def last_rev)
  with e show "\<not> py_isspace (last (strip raw))"
    by (simp add: hd_dropWhile)
  have "hd (strip raw) = last ?e"
    using e by (simp add: strip_def hd_rev)
  also have "\<dots> = last (rev ?d)"
    using e by (metis last_appendR takeWhile_dropWhile_id)
  also have "\<dots> = hd ?d"
    using d by (simp add: last_rev)
  finally show "\<not> py_isspace (hd (strip raw))"
    using d by (simp add: hd_dropWhile)
qed

section \<open>The paths through \<^verbatim>\<open>call_llm\<close>\<close>

text \<open>
  One lemma for each way through the function: a hit, an exception in the lookup, caching
  disabled, a miss with a failing endpoint, a miss with an answer. Then what each block
  contributes to the trace.
\<close>

lemma trace_call_llm:
  "trace (snd (call_llm out prompt use_cache w)) = trace w @ events_of out prompt use_cache w"
  by (simp add: events_of_def call_llm_def Let_def
      split: prod.splits lookup.splits sum.splits option.splits)

lemma call_llm_hit:
  assumes "lookup_cache (disk w) prompt = (Hit v, t)"
  shows "call_llm out prompt True w =
    (Returned v, w\<lparr>trace := trace w @ Log INFO (Msg (''PROMPT: '' @ prompt)) # t\<rparr>)"
  using assms by (simp add: call_llm_def Let_def)

lemma call_llm_fault:
  assumes "lookup_cache (disk w) prompt = (Fault x, t)"
  shows "call_llm out prompt True w =
    (Raised x, w\<lparr>trace := trace w @ Log INFO (Msg (''PROMPT: '' @ prompt)) # t\<rparr>)"
  using assms by (simp add: call_llm_def Let_def)

lemma call_llm_no_cache:
  "call_llm out prompt False w =
    (Returned (JString (case fst (call_ollama out (OLLAMA_MODEL w) prompt) of Inl err \<Rightarrow> err | Inr r \<Rightarrow> r)),
     w\<lparr>disk := meanwhile out (disk w),
       trace := trace w @ Log INFO (Msg (''PROMPT: '' @ prompt))
         # snd (call_ollama out (OLLAMA_MODEL w) prompt)\<rparr>)"
  by (simp add: call_llm_def Let_def split: prod.splits sum.splits)

lemma call_llm_miss_error:
  assumes "lookup_cache (disk w) prompt = (Miss, t)"
      and "call_ollama out (OLLAMA_MODEL w) prompt = (Inl err, t')"
  shows "call_llm out prompt True w =
    (Returned (JString err),
     w\<lparr>disk := meanwhile out (disk w),
       trace := trace w @ Log INFO (Msg (''PROMPT: '' @ prompt)) # t @ t'\<rparr>)"
  using assms by (simp add: call_llm_def Let_def)

lemma call_llm_miss_response:
  assumes "lookup_cache (disk w) prompt = (Miss, t)"
      and "call_ollama out (OLLAMA_MODEL w) prompt = (Inr r, t')"
      and "update_cache out (meanwhile out (disk w)) prompt r = (x, fs, t'')"
  shows "call_llm out prompt True w =
    (case x of None \<Rightarrow> Returned (JString r) | Some e \<Rightarrow> Raised e,
     w\<lparr>disk := fs,
       trace := trace w @ Log INFO (Msg (''PROMPT: '' @ prompt)) # t @ t' @ t''\<rparr>)"
  using assms by (simp add: call_llm_def Let_def split: option.splits)

lemma call_ollama_error:
  "generate out (ollama_model var) prompt = Inl e \<Longrightarrow>
   call_ollama out var prompt =
     (Inl (''Error: Could not get response from Ollama. Details: '' @ e),
      [Log INFO (Msg (''Calling Ollama model: '' @ ollama_model var)),
       Generate (ollama_model var) prompt,
       Log ERROR (Msg (''Error calling Ollama: '' @ e))])"
  by (simp add: call_ollama_def Let_def)

lemma call_ollama_response:
  "generate out (ollama_model var) prompt = Inr raw \<Longrightarrow>
   call_ollama out var prompt =
     (Inr (strip raw),
      [Log INFO (Msg (''Calling Ollama model: '' @ ollama_model var)),
       Generate (ollama_model var) prompt,
       Log INFO (Msg (''RESPONSE (Ollama): '' @ strip raw))])"
  by (simp add: call_ollama_def Let_def)



lemma call_llm_cached:
  assumes "disk w = Holds (JObject kvs)" and "map_of kvs prompt = Some v"
  shows "call_llm out prompt True w =
    (Returned v,
     w\<lparr>trace := trace w @ [Log INFO (Msg (''PROMPT: '' @ prompt)), PathExists, OpenRead,
        Log INFO (fmt ''RESPONSE (cached): '' v)]\<rparr>)"
proof -
  from assms(2) have "prompt \<in> fst ` set kvs"
    by (metis domI dom_map_of_conv_image_fst)
  with assms have "lookup_cache (disk w) prompt =
      (Hit v, [PathExists, OpenRead, Log INFO (fmt ''RESPONSE (cached): '' v)])"
    by (simp add: lookup_cache_def)
  then show ?thesis
    by (simp add: call_llm_hit)
qed

lemma update_cache_saves:
  assumes "fst (reload_cache fs) = Inr (JObject kvs)"
  shows "update_cache out fs prompt r =
    (None, fst (save_cache out (JObject (AList.update prompt (JString r) kvs)) fs),
     snd (reload_cache fs)
       @ snd (save_cache out (JObject (AList.update prompt (JString r) kvs)) fs))"
  using assms by (cases "reload_cache fs") (simp add: update_cache_def split: prod.splits)

lemma call_llm_stores:
  assumes miss: "fst (lookup_cache (disk w) prompt) = Miss"
      and ok: "generate out (ollama_model (OLLAMA_MODEL w)) prompt = Inr raw"
      and reload: "fst (reload_cache (meanwhile out (disk w))) = Inr (JObject kvs)"
  shows "call_llm out prompt True w =
    (Returned (JString (strip raw)),
     w\<lparr>disk := fst (save_cache out
               (JObject (AList.update prompt (JString (strip raw)) kvs)) (meanwhile out (disk w))),
       trace := trace w @ Log INFO (Msg (''PROMPT: '' @ prompt))
         # snd (lookup_cache (disk w) prompt)
         @ snd (call_ollama out (OLLAMA_MODEL w) prompt)
         @ snd (reload_cache (meanwhile out (disk w)))
         @ snd (save_cache out
               (JObject (AList.update prompt (JString (strip raw)) kvs)) (meanwhile out (disk w)))\<rparr>)"
proof -
  from miss have l: "lookup_cache (disk w) prompt = (Miss, snd (lookup_cache (disk w) prompt))"
    by (cases "lookup_cache (disk w) prompt") simp
  from ok have c: "call_ollama out (OLLAMA_MODEL w) prompt =
      (Inr (strip raw), snd (call_ollama out (OLLAMA_MODEL w) prompt))"
    by (simp add: call_ollama_response)
  show ?thesis
    by (simp add: call_llm_miss_response [OF l c update_cache_saves [OF reload]])
qed

lemma save_cache_ok:
  "write_fault out = None \<Longrightarrow> save_cache out c fs = (Holds c, [OpenWrite])"
  by (simp add: save_cache_def)


lemma load_cache_quiet: "filter is_generate (snd (load_cache fs)) = []"
  by (cases fs) simp_all

lemma lookup_cache_events:
  "snd (lookup_cache fs prompt) =
     snd (load_cache fs)
       @ (case fst (lookup_cache fs prompt) of
            Hit v \<Rightarrow> [Log INFO (fmt ''RESPONSE (cached): '' v)] | Miss \<Rightarrow> [] | Fault x \<Rightarrow> [])"
  by (cases "load_cache fs") (simp add: lookup_cache_def split: sum.splits bool.splits)

lemma lookup_cache_quiet: "filter is_generate (snd (lookup_cache fs prompt)) = []"
  by (simp add: lookup_cache_events [of fs prompt] load_cache_quiet split: lookup.splits)

lemma call_ollama_generates:
  "filter is_generate (snd (call_ollama out var prompt)) = [Generate (ollama_model var) prompt]"
  by (simp add: call_ollama_def Let_def split: sum.splits)

lemma reload_cache_quiet: "filter is_generate (snd (reload_cache fs)) = []"
  by (cases fs) simp_all

lemma save_cache_quiet: "filter is_generate (snd (save_cache out c fs)) = []"
  by (simp add: save_cache_def split: option.splits write_fault.splits)

lemma update_cache_quiet:
  "filter is_generate (snd (snd (update_cache out fs prompt r))) = []"
proof (cases "reload_cache fs")
  case (Pair res t)
  then have t: "filter is_generate t = []"
    using reload_cache_quiet [of fs] by simp
  show ?thesis
  proof (cases res)
    case (Inl x)
    with Pair t show ?thesis by (simp add: update_cache_def)
  next
    case (Inr cache)
    show ?thesis
    proof (cases "py_setitem cache prompt (JString r)")
      case (Inl x)
      with Pair t Inr show ?thesis by (simp add: update_cache_def)
    next
      case (Inr cache')
      then show ?thesis
        using Pair t \<open>res = Inr cache\<close> save_cache_quiet [of out cache' fs]
        by (auto simp: update_cache_def split: prod.splits)
    qed
  qed
qed

lemma generate_calls_of_call:
  "filter is_generate (events_of out prompt use_cache w) =
     (if live_call prompt use_cache w
      then [Generate (ollama_model (OLLAMA_MODEL w)) prompt] else [])"
proof (cases use_cache)
  case False
  then show ?thesis
    by (simp add: events_of_def call_llm_no_cache live_call_def call_ollama_generates)
next
  case True
  obtain l t where l: "lookup_cache (disk w) prompt = (l, t)"
    by (cases "lookup_cache (disk w) prompt")
  have q: "filter is_generate t = []"
    using lookup_cache_quiet [of "disk w" prompt] l by simp
  show ?thesis
  proof (cases l)
    case (Hit v)
    with True l q show ?thesis
      by (simp add: events_of_def call_llm_hit live_call_def)
  next
    case (Fault x)
    with True l q show ?thesis
      by (simp add: events_of_def call_llm_fault live_call_def)
  next
    case Miss
    obtain res t' where c: "call_ollama out (OLLAMA_MODEL w) prompt = (res, t')"
      by (cases "call_ollama out (OLLAMA_MODEL w) prompt")
    have g: "filter is_generate t' = [Generate (ollama_model (OLLAMA_MODEL w)) prompt]"
      using call_ollama_generates [of out "OLLAMA_MODEL w" prompt] c by simp
    show ?thesis
    proof (cases res)
      case (Inl err)
      with True l q Miss c g show ?thesis
        by (simp add: events_of_def call_llm_miss_error live_call_def)
    next
      case (Inr r)
      obtain x fs t'' where u: "update_cache out (meanwhile out (disk w)) prompt r = (x, fs, t'')"
        by (cases "update_cache out (meanwhile out (disk w)) prompt r")
      have "filter is_generate t'' = []"
        using update_cache_quiet [of out "meanwhile out (disk w)" prompt r] u by simp
      with True l q Miss c g Inr u show ?thesis
        by (simp add: events_of_def call_llm_miss_response live_call_def)
    qed
  qed
qed

lemma call_llm_live_error:
  assumes live: "live_call prompt use_cache w"
      and fail: "generate out (ollama_model (OLLAMA_MODEL w)) prompt = Inl e"
  shows "call_llm out prompt use_cache w =
    (Returned (JString (''Error: Could not get response from Ollama. Details: '' @ e)),
     w\<lparr>disk := meanwhile out (disk w),
       trace := trace w @ Log INFO (Msg (''PROMPT: '' @ prompt))
         # (if use_cache then snd (load_cache (disk w)) else [])
         @ [Log INFO (Msg (''Calling Ollama model: '' @ ollama_model (OLLAMA_MODEL w))),
            Generate (ollama_model (OLLAMA_MODEL w)) prompt,
            Log ERROR (Msg (''Error calling Ollama: '' @ e))]\<rparr>)"
proof (cases use_cache)
  case False
  with fail show ?thesis
    by (simp add: call_llm_no_cache call_ollama_error)
next
  case True
  with live have m: "fst (lookup_cache (disk w) prompt) = Miss"
    by (simp add: live_call_def)
  then have l: "lookup_cache (disk w) prompt = (Miss, snd (load_cache (disk w)))"
    using lookup_cache_events [of "disk w" prompt]
    by (cases "lookup_cache (disk w) prompt") simp
  from True show ?thesis
    by (simp add: call_llm_miss_error [OF l call_ollama_error [OF fail]])
qed

lemmas run_simps =
  call_llm_def lookup_cache_def call_ollama_def update_cache_def save_cache_def
  events_of_def live_call_def ollama_model_def getenv_def cache_file_def
  strip_def py_isspace_def answering_def failing_def fresh_def Let_def

lemma update_cache_unfold:
  "update_cache out fs prompt r =
     (case fst (reload_cache fs) of
        Inl x \<Rightarrow> (Some x, fs, snd (reload_cache fs))
      | Inr cache \<Rightarrow>
          (case py_setitem cache prompt (JString r) of
             Inl x \<Rightarrow> (Some x, fs, snd (reload_cache fs))
           | Inr cache' \<Rightarrow>
               (None, fst (save_cache out cache' fs),
                snd (reload_cache fs) @ snd (save_cache out cache' fs))))"
  by (cases "reload_cache fs") (simp add: update_cache_def split: sum.splits prod.splits)

lemma save_cache_fault:
  "write_fault out = Some f \<Longrightarrow>
   snd (save_cache out c fs) =
     [OpenWrite,
      Log ERROR (Msg (''Failed to save cache to '' @ [CHR 0x27] @ cache_file @ [CHR 0x27]
        @ '': '' @ fault_message f))]"
  by (cases f) (simp_all add: save_cache_def)

lemma load_cache_no_write: "OpenWrite \<notin> set (snd (load_cache fs))"
  by (cases fs) simp_all

lemma reload_cache_no_write: "OpenWrite \<notin> set (snd (reload_cache fs))"
  by (cases fs) simp_all

lemma lookup_cache_no_write: "OpenWrite \<notin> set (snd (lookup_cache fs prompt))"
  by (simp add: lookup_cache_events [of fs prompt] load_cache_no_write split: lookup.splits)

lemma call_ollama_no_file_access:
  "filter is_file_access (snd (call_ollama out var prompt)) = []"
  by (simp add: call_ollama_def Let_def split: sum.splits)

lemma call_ollama_no_write: "OpenWrite \<notin> set (snd (call_ollama out var prompt))"
  by (simp add: call_ollama_def Let_def split: sum.splits)

lemma call_llm_stored:
  assumes miss: "fst (lookup_cache (disk w) prompt) = Miss"
      and ok: "generate out (ollama_model (OLLAMA_MODEL w)) prompt = Inr raw"
      and reload: "fst (reload_cache (meanwhile out (disk w))) = Inr (JObject kvs)"
      and wok: "write_fault out = None"
  shows "fst (call_llm out prompt True w) = Returned (JString (strip raw))"
    and "disk (snd (call_llm out prompt True w)) =
      Holds (JObject (AList.update prompt (JString (strip raw)) kvs))"
    and "OLLAMA_MODEL (snd (call_llm out prompt True w)) = OLLAMA_MODEL w"
  by (simp_all add: call_llm_stores [OF miss ok reload] save_cache_ok [OF wok])

lemma call_llm_cached_outcome:
  assumes "disk w = Holds (JObject kvs)" and "map_of kvs prompt = Some v"
  shows "fst (call_llm out prompt True w) = Returned v"
    and "filter is_generate (events_of out prompt True w) = []"
  by (simp_all add: events_of_def call_llm_cached [OF assms])

lemma events_of_miss:
  assumes miss: "fst (lookup_cache (disk w) prompt) = Miss"
  obtains rest where "events_of out prompt True w =
    Log INFO (Msg (''PROMPT: '' @ prompt)) # snd (load_cache (disk w))
      @ Log INFO (Msg (''Calling Ollama model: '' @ ollama_model (OLLAMA_MODEL w)))
      # Generate (ollama_model (OLLAMA_MODEL w)) prompt # rest"
proof (cases "generate out (ollama_model (OLLAMA_MODEL w)) prompt")
  case (Inl e)
  from miss have "live_call prompt True w"
    by (simp add: live_call_def)
  from call_llm_live_error [OF this Inl] show ?thesis
    by (intro that) (simp add: events_of_def)
next
  case (Inr raw)
  from miss have l: "lookup_cache (disk w) prompt = (Miss, snd (load_cache (disk w)))"
    using lookup_cache_events [of "disk w" prompt]
    by (cases "lookup_cache (disk w) prompt") simp
  obtain x fs t where u: "update_cache out (meanwhile out (disk w)) prompt (strip raw) = (x, fs, t)"
    by (cases "update_cache out (meanwhile out (disk w)) prompt (strip raw)")
  from call_llm_miss_response [OF l call_ollama_response [OF Inr] u] show ?thesis
    by (intro that) (simp add: events_of_def)
qed

lemma call_llm_undecodable:
  assumes "disk w = Undecodable e"
  shows "fst (call_llm out prompt True w) = Raised (UnicodeDecodeError e)"
  using assms by (simp add: call_llm_def lookup_cache_def Let_def)

lemma call_llm_not_a_mapping:
  assumes live: "fst (lookup_cache (disk w) prompt) = Miss"
      and ok: "generate out (ollama_model (OLLAMA_MODEL w)) prompt = Inr raw"
      and reload: "fst (reload_cache (meanwhile out (disk w))) = Inr c"
      and c: "py_setitem c prompt (JString (strip raw)) = Inl x"
  shows "fst (call_llm out prompt True w) = Raised x"
proof -
  from live have l: "lookup_cache (disk w) prompt = (Miss, snd (lookup_cache (disk w) prompt))"
    by (cases "lookup_cache (disk w) prompt") simp
  have u: "update_cache out (meanwhile out (disk w)) prompt (strip raw) =
      (Some x, meanwhile out (disk w), snd (reload_cache (meanwhile out (disk w))))"
    using reload c by (simp add: update_cache_unfold)
  from call_llm_miss_response [OF l call_ollama_response [OF ok] u] show ?thesis
    by simp
qed

section \<open>Properties\<close>

text \<open>
  Claim C1. When \<^verbatim>\<open>call_llm(prompt, use_cache=True)\<close> is invoked while the cache file holds
  a mapping with key \<open>prompt\<close>, the call returns the cached value and does not invoke the
  endpoint; a second call with the same prompt returns the same value, again without
  invoking the endpoint. This holds whatever the outside would do (\<open>out\<close>, \<open>out'\<close>).
\<close>

theorem cache_hit_skips_endpoint:
  assumes "disk w = Holds (JObject kvs)" and "map_of kvs prompt = Some v"
  shows "fst (call_llm out prompt True w) = Returned v
    \<and> filter is_generate (events_of out prompt True w) = []
    \<and> fst (call_llm out' prompt True (snd (call_llm out prompt True w))) = Returned v
    \<and> filter is_generate (events_of out' prompt True (snd (call_llm out prompt True w))) = []"
proof -
  let ?w' = "snd (call_llm out prompt True w)"
  have first: "call_llm out prompt True w =
      (Returned v,
       w\<lparr>trace := trace w @ [Log INFO (Msg (''PROMPT: '' @ prompt)), PathExists, OpenRead,
          Log INFO (fmt ''RESPONSE (cached): '' v)]\<rparr>)"
    using assms by (rule call_llm_cached)
  then have "disk ?w' = Holds (JObject kvs)"
    using assms(1) by simp
  then have second: "call_llm out' prompt True ?w' =
      (Returned v,
       ?w'\<lparr>trace := trace ?w' @ [Log INFO (Msg (''PROMPT: '' @ prompt)), PathExists, OpenRead,
          Log INFO (fmt ''RESPONSE (cached): '' v)]\<rparr>)"
    using assms(2) by (rule call_llm_cached)
  have a: "fst (call_llm out prompt True w) = Returned v"
    using first by simp
  have b: "filter is_generate (events_of out prompt True w) = []"
    using first by (simp add: events_of_def)
  have c: "fst (call_llm out' prompt True ?w') = Returned v"
    using second by simp
  have d: "filter is_generate (events_of out' prompt True ?w') = []"
    using second by (simp add: events_of_def)
  from a b c d show ?thesis
    by simp
qed

theorem cache_hit_skips_endpoint_witness:
  "disk (fresh (Holds (JObject [(''P'', JString ''R'')]))) = Holds (JObject [(''P'', JString ''R'')])
   \<and> map_of [(''P'', JString ''R'')] ''P'' = Some (JString ''R'')
   \<and> fst (call_llm (failing ''down'') ''P'' True (fresh (Holds (JObject [(''P'', JString ''R'')]))))
       = Returned (JString ''R'')
   \<and> filter is_generate
        (events_of (failing ''down'') ''P'' True (fresh (Holds (JObject [(''P'', JString ''R'')])))) = []"
  using cache_hit_skips_endpoint
    [of "fresh (Holds (JObject [(''P'', JString ''R'')]))" "[(''P'', JString ''R'')]" "''P''"
        "JString ''R''" "failing ''down''" "failing ''down''"]
  by (simp add: fresh_def)

text \<open>
  Claim C2. When the call reaches the endpoint and the endpoint call raises with detail
  \<open>e\<close>, \<^verbatim>\<open>call_llm\<close> does not raise: it returns the fixed prefix
  \<^verbatim>\<open>Error: Could not get response from Ollama. Details: \<close> followed by \<open>e\<close>, and the last
  thing it does is log the failure at level \<^verbatim>\<open>ERROR\<close>.
\<close>

theorem endpoint_failure_returned_as_string:
  assumes "live_call prompt use_cache w"
      and "generate out (ollama_model (OLLAMA_MODEL w)) prompt = Inl e"
  shows "fst (call_llm out prompt use_cache w) =
      Returned (JString (''Error: Could not get response from Ollama. Details: '' @ e))
    \<and> last (events_of out prompt use_cache w) = Log ERROR (Msg (''Error calling Ollama: '' @ e))"
  by (simp add: events_of_def call_llm_live_error [OF assms])

theorem endpoint_failure_returned_as_string_witness:
  "live_call ''P'' True (fresh Absent)
   \<and> generate (failing ''connection refused'') (ollama_model (OLLAMA_MODEL (fresh Absent))) ''P''
       = Inl ''connection refused''
   \<and> fst (call_llm (failing ''connection refused'') ''P'' True (fresh Absent)) =
       Returned (JString ''Error: Could not get response from Ollama. Details: connection refused'')
   \<and> last (events_of (failing ''connection refused'') ''P'' True (fresh Absent)) =
       Log ERROR (Msg ''Error calling Ollama: connection refused'')"
proof -
  have l: "live_call ''P'' True (fresh Absent)"
    by (simp add: live_call_def lookup_cache_def fresh_def)
  have g: "generate (failing ''connection refused'') (ollama_model (OLLAMA_MODEL (fresh Absent))) ''P''
      = Inl ''connection refused''"
    by (simp add: failing_def)
  show ?thesis
    using l g endpoint_failure_returned_as_string [OF l g] by simp
qed

text \<open>
  Claim C3 (amended). When the cache file is absent, or exists and reading it raises
  \<^verbatim>\<open>IOError\<close> or \<^verbatim>\<open>JSONDecodeError\<close> with message \<open>e\<close>, \<^verbatim>\<open>call_llm(prompt, use_cache=True)\<close>
  takes the cache to be the empty mapping and goes on to the endpoint. Before the endpoint
  call it has logged one warning, with \<open>e\<close> in it, when the read failed, and no warning
  when the file is absent. When nobody else changes the file meanwhile, the call does not
  raise: it returns the stripped response, or the error string when the endpoint fails.
\<close>

theorem load_failure_is_empty_cache:
  assumes "disk w = Absent \<or> disk w = Unreadable e \<or> disk w = Malformed e"
  shows "fst (load_cache (disk w)) = Inr (JObject [])
    \<and> live_call prompt True w
    \<and> filter is_warning (takeWhile (\<lambda>ev. \<not> is_generate ev) (events_of out prompt True w)) =
        (if disk w = Absent then []
         else [Log WARNING (Msg (''Failed to load cache file '' @ [CHR 0x27] @ cache_file
                 @ [CHR 0x27] @ '': '' @ e @ ''. Starting with empty cache.''))])
    \<and> (meanwhile out (disk w) = disk w \<longrightarrow>
         fst (call_llm out prompt True w) =
           Returned (JString (case generate out (ollama_model (OLLAMA_MODEL w)) prompt of
              Inl e' \<Rightarrow> ''Error: Could not get response from Ollama. Details: '' @ e'
            | Inr raw \<Rightarrow> strip raw)))"
proof -
  from assms have empty: "fst (load_cache (disk w)) = Inr (JObject [])"
    by auto
  then have miss: "fst (lookup_cache (disk w) prompt) = Miss"
    by (cases "load_cache (disk w)") (simp add: lookup_cache_def)
  then have live: "live_call prompt True w"
    by (simp add: live_call_def)
  obtain rest where ev: "events_of out prompt True w =
    Log INFO (Msg (''PROMPT: '' @ prompt)) # snd (load_cache (disk w))
      @ Log INFO (Msg (''Calling Ollama model: '' @ ollama_model (OLLAMA_MODEL w)))
      # Generate (ollama_model (OLLAMA_MODEL w)) prompt # rest"
    using miss by (rule events_of_miss)
  have warn: "filter is_warning (takeWhile (\<lambda>ev. \<not> is_generate ev) (events_of out prompt True w)) =
        (if disk w = Absent then []
         else [Log WARNING (Msg (''Failed to load cache file '' @ [CHR 0x27] @ cache_file
                 @ [CHR 0x27] @ '': '' @ e @ ''. Starting with empty cache.''))])"
    using assms by (auto simp: ev)
  have ret: "fst (call_llm out prompt True w) =
           Returned (JString (case generate out (ollama_model (OLLAMA_MODEL w)) prompt of
              Inl e' \<Rightarrow> ''Error: Could not get response from Ollama. Details: '' @ e'
            | Inr raw \<Rightarrow> strip raw))"
    if quiet: "meanwhile out (disk w) = disk w"
  proof (cases "generate out (ollama_model (OLLAMA_MODEL w)) prompt")
    case (Inl e')
    with call_llm_live_error [OF live Inl] show ?thesis by simp
  next
    case (Inr raw)
    from assms quiet have "fst (reload_cache (meanwhile out (disk w))) = Inr (JObject [])"
      by auto
    from call_llm_stores [OF miss Inr this] Inr show ?thesis by simp
  qed
  from empty live warn ret show ?thesis
    by blast
qed

theorem load_failure_is_empty_cache_witness:
  "(disk (fresh (Malformed ''Expecting value: line 1 column 1 (char 0)'')) = Absent
      \<or> disk (fresh (Malformed ''Expecting value: line 1 column 1 (char 0)''))
          = Unreadable ''Expecting value: line 1 column 1 (char 0)''
      \<or> disk (fresh (Malformed ''Expecting value: line 1 column 1 (char 0)''))
          = Malformed ''Expecting value: line 1 column 1 (char 0)'')
   \<and> filter is_warning (takeWhile (\<lambda>ev. \<not> is_generate ev)
        (events_of (answering ''R'') ''P'' True
          (fresh (Malformed ''Expecting value: line 1 column 1 (char 0)'')))) =
        [Log WARNING (Msg (''Failed to load cache file '' @ [CHR 0x27] @ ''llm_cache.json''
           @ [CHR 0x27]
           @ '': Expecting value: line 1 column 1 (char 0). Starting with empty cache.''))]
   \<and> fst (call_llm (answering ''R'') ''P'' True
        (fresh (Malformed ''Expecting value: line 1 column 1 (char 0)''))) = Returned (JString ''R'')"
proof -
  let ?w = "fresh (Malformed ''Expecting value: line 1 column 1 (char 0)'')"
  have h: "disk ?w = Absent
      \<or> disk ?w = Unreadable ''Expecting value: line 1 column 1 (char 0)''
      \<or> disk ?w = Malformed ''Expecting value: line 1 column 1 (char 0)''"
    by (simp add: fresh_def)
  have s: "strip ''R'' = ''R''"
    by (simp add: strip_def py_isspace_def)
  show ?thesis
    using h load_failure_is_empty_cache [OF h, of "''P''" "answering ''R''"]
    by (simp add: s fresh_def answering_def cache_file_def)
qed

text \<open>
  The claim as stated asks for a warning also when the file is missing, and for no
  exception on every content of the file. With the file absent the whole call logs no
  warning (line 44 tests \<^verbatim>\<open>os.path.exists\<close> first). With a file whose reading raises an
  exception outside \<^verbatim>\<open>(json.JSONDecodeError, IOError)\<close>, the exception leaves \<^verbatim>\<open>call_llm\<close>.
\<close>

theorem load_failure_counterexample:
  "disk (fresh Absent) = Absent
   \<and> fst (call_llm (answering ''R'') ''P'' True (fresh Absent)) = Returned (JString ''R'')
   \<and> filter is_warning (events_of (answering ''R'') ''P'' True (fresh Absent)) = []
   \<and> fst (call_llm (answering ''R'') ''P'' True
        (fresh (Undecodable ''invalid start byte''))) = Raised (UnicodeDecodeError ''invalid start byte'')"
  by (simp add: run_simps)

text \<open>
  Claim C4. When the endpoint answered and the call then tries to write the cache file
  (it opens the file for writing) and the write fails, \<^verbatim>\<open>call_llm\<close> still returns the
  response text, that is the endpoint's text stripped, and the last thing it does is log
  the write failure at level \<^verbatim>\<open>ERROR\<close>.
\<close>

theorem write_failure_keeps_response:
  assumes ok: "generate out (ollama_model (OLLAMA_MODEL w)) prompt = Inr raw"
      and attempt: "OpenWrite \<in> set (events_of out prompt True w)"
      and wf: "write_fault out = Some f"
  shows "fst (call_llm out prompt True w) = Returned (JString (strip raw))
    \<and> last (events_of out prompt True w) =
        Log ERROR (Msg (''Failed to save cache to '' @ [CHR 0x27] @ cache_file @ [CHR 0x27]
          @ '': '' @ fault_message f))"
proof -
  let ?fs = "meanwhile out (disk w)"
  obtain l t where l: "lookup_cache (disk w) prompt = (l, t)"
    by (cases "lookup_cache (disk w) prompt")
  have t: "OpenWrite \<notin> set t"
    using lookup_cache_no_write [of "disk w" prompt] l by simp
  obtain t' where c: "call_ollama out (OLLAMA_MODEL w) prompt = (Inr (strip raw), t')"
    using ok by (simp add: call_ollama_response)
  have t': "OpenWrite \<notin> set t'"
    using call_ollama_no_write [of out "OLLAMA_MODEL w" prompt] c by simp
  have miss: "l = Miss"
  proof (cases l)
    case (Hit v)
    with l t attempt show ?thesis by (simp add: events_of_def call_llm_hit)
  next
    case (Fault x)
    with l t attempt show ?thesis by (simp add: events_of_def call_llm_fault)
  qed simp
  obtain x fs t'' where u: "update_cache out ?fs prompt (strip raw) = (x, fs, t'')"
    by (cases "update_cache out ?fs prompt (strip raw)")
  note run = call_llm_miss_response [OF l [unfolded miss] c u]
  from attempt t t' have w: "OpenWrite \<in> set t''"
    by (auto simp: events_of_def run)
  obtain cache cache' where r: "fst (reload_cache ?fs) = Inr cache"
    and s: "py_setitem cache prompt (JString (strip raw)) = Inr cache'"
    using u w reload_cache_no_write [of ?fs]
    by (auto simp: update_cache_unfold split: sum.splits)
  from u r s have x: "x = None" and t'': "t'' = snd (reload_cache ?fs) @ snd (save_cache out cache' ?fs)"
    by (simp_all add: update_cache_unfold)
  from x have "fst (call_llm out prompt True w) = Returned (JString (strip raw))"
    by (simp add: run)
  moreover have "last (events_of out prompt True w) =
        Log ERROR (Msg (''Failed to save cache to '' @ [CHR 0x27] @ cache_file @ [CHR 0x27]
          @ '': '' @ fault_message f))"
    by (simp add: events_of_def run t'' save_cache_fault [OF wf])
  ultimately show ?thesis by simp
qed


theorem write_failure_keeps_response_witness:
  "generate (denying '' R '' ''Permission denied'') (ollama_model (OLLAMA_MODEL (fresh Absent))) ''P''
     = Inr '' R ''
   \<and> OpenWrite \<in> set (events_of (denying '' R '' ''Permission denied'') ''P'' True (fresh Absent))
   \<and> write_fault (denying '' R '' ''Permission denied'') = Some (OpenFails ''Permission denied'')
   \<and> fst (call_llm (denying '' R '' ''Permission denied'') ''P'' True (fresh Absent))
       = Returned (JString ''R'')
   \<and> last (events_of (denying '' R '' ''Permission denied'') ''P'' True (fresh Absent))
       = Log ERROR (Msg (''Failed to save cache to '' @ [CHR 0x27] @ ''llm_cache.json''
           @ [CHR 0x27] @ '': Permission denied''))"
proof -
  have ok: "generate (denying '' R '' ''Permission denied'')
      (ollama_model (OLLAMA_MODEL (fresh Absent))) ''P'' = Inr '' R ''"
    by (simp add: denying_def)
  have attempt: "OpenWrite \<in> set (events_of (denying '' R '' ''Permission denied'') ''P'' True (fresh Absent))"
    by (simp add: run_simps denying_def)
  have wf: "write_fault (denying '' R '' ''Permission denied'') = Some (OpenFails ''Permission denied'')"
    by (simp add: denying_def)
  have s: "strip '' R '' = ''R''"
    by (simp add: strip_def py_isspace_def)
  show ?thesis
    using ok attempt wf write_failure_keeps_response [OF ok attempt wf]
    by (simp add: s cache_file_def)
qed

text \<open>
  Claim C5. With \<^verbatim>\<open>use_cache=False\<close> the call invokes the endpoint exactly once, for every
  state of the cache file, and what it returns does not depend on the cache file.
\<close>

theorem disabled_cache_always_calls_endpoint:
  "filter is_generate (events_of out prompt False w)
     = [Generate (ollama_model (OLLAMA_MODEL w)) prompt]
   \<and> fst (call_llm out prompt False (w\<lparr>disk := fs\<rparr>)) = fst (call_llm out prompt False w)"
  by (simp add: generate_calls_of_call live_call_def call_llm_no_cache)

theorem disabled_cache_always_calls_endpoint_witness:
  "map_of [(''P'', JString ''old'')] ''P'' = Some (JString ''old'')
   \<and> filter is_generate
        (events_of (answering ''new'') ''P'' False (fresh (Holds (JObject [(''P'', JString ''old'')]))))
       = [Generate ''qwen2.5-32k'' ''P'']
   \<and> fst (call_llm (answering ''new'') ''P'' False (fresh (Holds (JObject [(''P'', JString ''old'')]))))
       = Returned (JString ''new'')"
proof -
  have "fst (call_llm (answering ''new'') ''P'' False (fresh Absent)) = Returned (JString ''new'')"
    by (simp add: run_simps)
  then show ?thesis
    using disabled_cache_always_calls_endpoint
      [of "answering ''new''" "''P''" "fresh Absent" "Holds (JObject [(''P'', JString ''old'')])"]
    disabled_cache_always_calls_endpoint
      [of "answering ''new''" "''P''" "fresh (Holds (JObject [(''P'', JString ''old'')]))" Absent]
    by (simp add: fresh_def ollama_model_def getenv_def)
qed

text \<open>
  Claim C6 (amended). When \<^verbatim>\<open>call_llm(prompt, use_cache=True)\<close> misses the cache, the endpoint
  answers, the cache file as re-read after the endpoint call (that is, as the other processes
  left it meanwhile, not as it was at the lookup) gives a mapping \<open>kvs\<close> (the file holds a JSON
  object, or is absent, unreadable or malformed, where \<open>kvs\<close> is empty), and the write
  succeeds, then the file afterwards holds \<open>kvs\<close> with the entry for \<open>prompt\<close> set to the
  stripped response: every other key keeps its value. The call returns that response, and a
  second call with the same prompt returns it again without invoking the endpoint.
\<close>

theorem saved_cache_is_reload_plus_entry:
  assumes miss: "fst (lookup_cache (disk w) prompt) = Miss"
      and ok: "generate out (ollama_model (OLLAMA_MODEL w)) prompt = Inr raw"
      and reload: "fst (reload_cache (meanwhile out (disk w))) = Inr (JObject kvs)"
      and wok: "write_fault out = None"
  shows "disk (snd (call_llm out prompt True w)) =
      Holds (JObject (AList.update prompt (JString (strip raw)) kvs))
    \<and> map_of (AList.update prompt (JString (strip raw)) kvs) prompt = Some (JString (strip raw))
    \<and> (\<forall>k. k \<noteq> prompt \<longrightarrow>
          map_of (AList.update prompt (JString (strip raw)) kvs) k = map_of kvs k)
    \<and> fst (call_llm out prompt True w) = Returned (JString (strip raw))
    \<and> fst (call_llm out' prompt True (snd (call_llm out prompt True w)))
        = Returned (JString (strip raw))
    \<and> filter is_generate (events_of out' prompt True (snd (call_llm out prompt True w))) = []"
proof -
  let ?kvs' = "AList.update prompt (JString (strip raw)) kvs"
  let ?w' = "snd (call_llm out prompt True w)"
  note first = call_llm_stored [OF miss ok reload wok]
  have entry: "map_of ?kvs' prompt = Some (JString (strip raw))"
    by (simp add: update_conv')
  have frame: "\<forall>k. k \<noteq> prompt \<longrightarrow> map_of ?kvs' k = map_of kvs k"
    by (simp add: update_conv')
  note second = call_llm_cached_outcome [OF first(2) entry, of out']
  from first(1,2) entry frame second show ?thesis
    by blast
qed

theorem saved_cache_is_reload_plus_entry_witness:
  "fst (lookup_cache (disk (fresh Absent)) ''P'') = Miss
   \<and> generate (interfering '' R '' (Holds (JObject [(''Q'', JString ''S'')])))
        (ollama_model (OLLAMA_MODEL (fresh Absent))) ''P'' = Inr '' R ''
   \<and> fst (reload_cache (meanwhile (interfering '' R '' (Holds (JObject [(''Q'', JString ''S'')])))
        (disk (fresh Absent)))) = Inr (JObject [(''Q'', JString ''S'')])
   \<and> write_fault (interfering '' R '' (Holds (JObject [(''Q'', JString ''S'')]))) = None
   \<and> disk (snd (call_llm (interfering '' R '' (Holds (JObject [(''Q'', JString ''S'')]))) ''P'' True
        (fresh Absent)))
       = Holds (JObject [(''Q'', JString ''S''), (''P'', JString ''R'')])
   \<and> fst (call_llm (failing ''down'') ''P'' True
        (snd (call_llm (interfering '' R '' (Holds (JObject [(''Q'', JString ''S'')]))) ''P'' True
           (fresh Absent))))
       = Returned (JString ''R'')"
proof -
  let ?out = "interfering '' R '' (Holds (JObject [(''Q'', JString ''S'')]))"
  have miss: "fst (lookup_cache (disk (fresh Absent)) ''P'') = Miss"
    by (simp add: lookup_cache_def fresh_def)
  have ok: "generate ?out (ollama_model (OLLAMA_MODEL (fresh Absent))) ''P'' = Inr '' R ''"
    by (simp add: interfering_def)
  have reload: "fst (reload_cache (meanwhile ?out (disk (fresh Absent))))
      = Inr (JObject [(''Q'', JString ''S'')])"
    by (simp add: interfering_def)
  have wok: "write_fault ?out = None"
    by (simp add: interfering_def)
  have s: "strip '' R '' = ''R''"
    by (simp add: strip_def py_isspace_def)
  show ?thesis
    using miss ok reload wok
      saved_cache_is_reload_plus_entry [OF miss ok reload wok, of "failing ''down''"]
    by (simp add: s)
qed

text \<open>
  The claim as stated does not ask that the write succeeds. Here the lookup misses, the
  endpoint answers and the reload gives the empty mapping, and the file cannot be opened for
  writing: the call returns the response and the file does not hold the new entry.
\<close>

theorem saved_cache_counterexample:
  "fst (lookup_cache (disk (fresh Absent)) ''P'') = Miss
   \<and> generate (denying ''R'' ''Permission denied'') (ollama_model (OLLAMA_MODEL (fresh Absent))) ''P''
       = Inr ''R''
   \<and> fst (reload_cache (meanwhile (denying ''R'' ''Permission denied'') (disk (fresh Absent))))
       = Inr (JObject [])
   \<and> fst (call_llm (denying ''R'' ''Permission denied'') ''P'' True (fresh Absent))
       = Returned (JString ''R'')
   \<and> disk (snd (call_llm (denying ''R'' ''Permission denied'') ''P'' True (fresh Absent))) = Absent
   \<and> disk (snd (call_llm (denying ''R'' ''Permission denied'') ''P'' True (fresh Absent)))
       \<noteq> Holds (JObject (AList.update ''P'' (JString ''R'') []))"
  by (simp add: run_simps denying_def)

text \<open>
  The live path. When the call reaches the endpoint (caching disabled, or a miss), the model
  passed to the endpoint is the value of \<^verbatim>\<open>OLLAMA_MODEL\<close>, or \<^verbatim>\<open>qwen2.5-32k\<close> when the
  variable is unset, and the endpoint is invoked once. When the endpoint answers \<open>raw\<close>,
  the response text that is logged is \<open>strip raw\<close>, and whatever the call returns is
  \<open>strip raw\<close>. The call returns it when caching is disabled, or when the cache file
  re-read for saving gives a mapping.
\<close>

lemma live_call_response:
  assumes live: "live_call prompt use_cache w"
      and ok: "generate out (ollama_model (OLLAMA_MODEL w)) prompt = Inr raw"
  shows "ollama_model (OLLAMA_MODEL w)
      = (case OLLAMA_MODEL w of None \<Rightarrow> ''qwen2.5-32k'' | Some model \<Rightarrow> model)
    \<and> filter is_generate (events_of out prompt use_cache w)
        = [Generate (ollama_model (OLLAMA_MODEL w)) prompt]
    \<and> Log INFO (Msg (''RESPONSE (Ollama): '' @ strip raw)) \<in> set (events_of out prompt use_cache w)
    \<and> (\<forall>v. fst (call_llm out prompt use_cache w) = Returned v \<longrightarrow> v = JString (strip raw))
    \<and> (\<not> use_cache \<or> (\<exists>kvs. fst (reload_cache (meanwhile out (disk w))) = Inr (JObject kvs))
         \<longrightarrow> fst (call_llm out prompt use_cache w) = Returned (JString (strip raw)))"
proof -
  have model: "ollama_model (OLLAMA_MODEL w)
      = (case OLLAMA_MODEL w of None \<Rightarrow> ''qwen2.5-32k'' | Some model \<Rightarrow> model)"
    by (simp add: ollama_model_def getenv_def)
  have calls: "filter is_generate (events_of out prompt use_cache w)
        = [Generate (ollama_model (OLLAMA_MODEL w)) prompt]"
    using live by (simp add: generate_calls_of_call)
  have rest: "Log INFO (Msg (''RESPONSE (Ollama): '' @ strip raw)) \<in> set (events_of out prompt use_cache w)
    \<and> (\<forall>v. fst (call_llm out prompt use_cache w) = Returned v \<longrightarrow> v = JString (strip raw))
    \<and> (\<not> use_cache \<or> (\<exists>kvs. fst (reload_cache (meanwhile out (disk w))) = Inr (JObject kvs))
         \<longrightarrow> fst (call_llm out prompt use_cache w) = Returned (JString (strip raw)))"
  proof (cases use_cache)
    case False
    with ok show ?thesis
      by (simp add: events_of_def call_llm_no_cache call_ollama_response)
  next
    case True
    with live have "fst (lookup_cache (disk w) prompt) = Miss"
      by (simp add: live_call_def)
    then have l: "lookup_cache (disk w) prompt = (Miss, snd (lookup_cache (disk w) prompt))"
      by (cases "lookup_cache (disk w) prompt") simp
    obtain x fs t where u: "update_cache out (meanwhile out (disk w)) prompt (strip raw) = (x, fs, t)"
      by (cases "update_cache out (meanwhile out (disk w)) prompt (strip raw)")
    note run = call_llm_miss_response [OF l call_ollama_response [OF ok] u]
    have logged: "Log INFO (Msg (''RESPONSE (Ollama): '' @ strip raw))
        \<in> set (events_of out prompt True w)"
      by (simp add: events_of_def run)
    have returned: "\<forall>v. fst (call_llm out prompt True w) = Returned v \<longrightarrow> v = JString (strip raw)"
      by (cases x) (simp_all add: run)
    have "fst (call_llm out prompt True w) = Returned (JString (strip raw))"
      if "fst (reload_cache (meanwhile out (disk w))) = Inr (JObject kvs)" for kvs
      using u that by (simp add: run update_cache_unfold)
    with True logged returned show ?thesis
      by auto
  qed
  with model calls show ?thesis
    by blast
qed

lemma live_call_response_example:
  "live_call ''P'' True ((fresh Absent)\<lparr>OLLAMA_MODEL := Some ''llama3''\<rparr>)
   \<and> generate (answering ([CHR 0x0A] @ ''  two words '' @ [CHR 0x09, CHR 0x0A]))
        (ollama_model (OLLAMA_MODEL ((fresh Absent)\<lparr>OLLAMA_MODEL := Some ''llama3''\<rparr>))) ''P''
       = Inr ([CHR 0x0A] @ ''  two words '' @ [CHR 0x09, CHR 0x0A])
   \<and> fst (reload_cache (meanwhile (answering ([CHR 0x0A] @ ''  two words '' @ [CHR 0x09, CHR 0x0A]))
        (disk ((fresh Absent)\<lparr>OLLAMA_MODEL := Some ''llama3''\<rparr>)))) = Inr (JObject [])
   \<and> filter is_generate
        (events_of (answering ([CHR 0x0A] @ ''  two words '' @ [CHR 0x09, CHR 0x0A])) ''P'' True
          ((fresh Absent)\<lparr>OLLAMA_MODEL := Some ''llama3''\<rparr>)) = [Generate ''llama3'' ''P'']
   \<and> fst (call_llm (answering ([CHR 0x0A] @ ''  two words '' @ [CHR 0x09, CHR 0x0A])) ''P'' True
        ((fresh Absent)\<lparr>OLLAMA_MODEL := Some ''llama3''\<rparr>)) = Returned (JString ''two words'')"
proof -
  let ?w = "(fresh Absent)\<lparr>OLLAMA_MODEL := Some ''llama3''\<rparr>"
  let ?raw = "[CHR 0x0A] @ ''  two words '' @ [CHR 0x09, CHR 0x0A]"
  have live: "live_call ''P'' True ?w"
    by (simp add: live_call_def lookup_cache_def fresh_def)
  have ok: "generate (answering ?raw) (ollama_model (OLLAMA_MODEL ?w)) ''P'' = Inr ?raw"
    by (simp add: answering_def)
  have reload: "fst (reload_cache (meanwhile (answering ?raw) (disk ?w))) = Inr (JObject [])"
    by (simp add: answering_def fresh_def)
  have s: "strip ?raw = ''two words''"
    by (simp add: strip_def py_isspace_def)
  have m: "ollama_model (OLLAMA_MODEL ?w) = ''llama3''"
    by (simp add: ollama_model_def getenv_def fresh_def)
  note t = live_call_response [OF live ok, unfolded s m]
  from t have calls: "filter is_generate (events_of (answering ?raw) ''P'' True ?w)
      = [Generate ''llama3'' ''P'']"
    by blast
  from t reload have ret: "fst (call_llm (answering ?raw) ''P'' True ?w)
      = Returned (JString ''two words'')"
    by blast
  from live ok reload calls ret show ?thesis
    by blast
qed

text \<open>
  Claim C7. Every call that reaches the endpoint (caching disabled, or a miss) takes the
  model from \<^verbatim>\<open>OLLAMA_MODEL\<close>, or the default when it is unset, and returns the endpoint's
  text stripped. The code misses one case. With caching enabled, \<^verbatim>\<open>OLLAMA_MODEL\<close> unset and
  a cache file that holds the JSON array \<^verbatim>\<open>[]\<close>, the lookup is a miss, the endpoint is invoked
  once with the default model and answers, the stripped text is logged as the response, and
  then \<^verbatim>\<open>cache[prompt] = response_text\<close> (line 96, outside any \<^verbatim>\<open>try\<close>) raises \<^verbatim>\<open>TypeError\<close>:
  the call returns nothing. The docstring (lines 34 to 36) says that the response text is
  returned, and the reload just before (lines 89 to 93) recovers from an unreadable or
  malformed file with an empty cache.
\<close>

theorem live_response_not_returned:
  "fst (lookup_cache (disk (fresh (Holds (JArray [])))) ''P'') = Miss
   \<and> generate (answering '' R '') (ollama_model (OLLAMA_MODEL (fresh (Holds (JArray []))))) ''P''
       = Inr '' R ''
   \<and> strip '' R '' = ''R''
   \<and> filter is_generate (events_of (answering '' R '') ''P'' True (fresh (Holds (JArray []))))
       = [Generate ''qwen2.5-32k'' ''P'']
   \<and> Log INFO (Msg ''RESPONSE (Ollama): R'')
       \<in> set (events_of (answering '' R '') ''P'' True (fresh (Holds (JArray []))))
   \<and> fst (call_llm (answering '' R '') ''P'' True (fresh (Holds (JArray [])))) = Raised TypeError"
  by (simp add: run_simps)

text \<open>
  Claim C8. When \<^verbatim>\<open>call_llm(prompt, use_cache=True)\<close> misses the cache and the endpoint call
  fails, the call returns the error string and never opens the cache file for writing: the
  file is left as the other processes made it meanwhile, untouched when nobody else writes,
  and a later lookup of the prompt in it is still a miss.
\<close>

theorem endpoint_failure_not_cached:
  assumes miss: "fst (lookup_cache (disk w) prompt) = Miss"
      and fail: "generate out (ollama_model (OLLAMA_MODEL w)) prompt = Inl e"
  shows "fst (call_llm out prompt True w) =
      Returned (JString (''Error: Could not get response from Ollama. Details: '' @ e))
    \<and> OpenWrite \<notin> set (events_of out prompt True w)
    \<and> disk (snd (call_llm out prompt True w)) = meanwhile out (disk w)
    \<and> disk (snd (call_llm (out\<lparr>meanwhile := \<lambda>fs. fs\<rparr>) prompt True w)) = disk w
    \<and> fst (lookup_cache (disk (snd (call_llm (out\<lparr>meanwhile := \<lambda>fs. fs\<rparr>) prompt True w)))
         prompt) = Miss"
proof -
  from miss have live: "live_call prompt True w"
    by (simp add: live_call_def)
  from fail have fail': "generate (out\<lparr>meanwhile := \<lambda>fs. fs\<rparr>) (ollama_model (OLLAMA_MODEL w)) prompt = Inl e"
    by simp
  show ?thesis
    using miss
    by (simp add: events_of_def call_llm_live_error [OF live fail]
        call_llm_live_error [OF live fail'] load_cache_no_write)
qed

theorem endpoint_failure_not_cached_witness:
  "fst (lookup_cache (disk (fresh (Holds (JObject [(''Q'', JString ''S'')])))) ''P'') = Miss
   \<and> generate (failing ''timeout'')
        (ollama_model (OLLAMA_MODEL (fresh (Holds (JObject [(''Q'', JString ''S'')]))))) ''P''
       = Inl ''timeout''
   \<and> fst (call_llm (failing ''timeout'') ''P'' True (fresh (Holds (JObject [(''Q'', JString ''S'')]))))
       = Returned (JString ''Error: Could not get response from Ollama. Details: timeout'')
   \<and> disk (snd (call_llm (failing ''timeout'') ''P'' True
        (fresh (Holds (JObject [(''Q'', JString ''S'')])))))
       = Holds (JObject [(''Q'', JString ''S'')])"
proof -
  let ?w = "fresh (Holds (JObject [(''Q'', JString ''S'')]))"
  have miss: "fst (lookup_cache (disk ?w) ''P'') = Miss"
    by (simp add: lookup_cache_def fresh_def)
  have fail: "generate (failing ''timeout'') (ollama_model (OLLAMA_MODEL ?w)) ''P'' = Inl ''timeout''"
    by (simp add: failing_def)
  show ?thesis
    using miss fail endpoint_failure_not_cached [OF miss fail]
    by (simp add: fresh_def failing_def)
qed

text \<open>
  Claim C9. The cache is keyed on the prompt alone. After a call that stored its response for
  \<open>prompt\<close> under one setting of \<^verbatim>\<open>OLLAMA_MODEL\<close>, a call with the same prompt under any
  other setting \<open>var\<close> of the variable returns the stored response and does not invoke the
  endpoint.
\<close>

theorem cache_ignores_model:
  assumes miss: "fst (lookup_cache (disk w) prompt) = Miss"
      and ok: "generate out (ollama_model (OLLAMA_MODEL w)) prompt = Inr raw"
      and reload: "fst (reload_cache (meanwhile out (disk w))) = Inr (JObject kvs)"
      and wok: "write_fault out = None"
  shows "fst (call_llm out' prompt True ((snd (call_llm out prompt True w))\<lparr>OLLAMA_MODEL := var\<rparr>))
      = Returned (JString (strip raw))
    \<and> filter is_generate
        (events_of out' prompt True ((snd (call_llm out prompt True w))\<lparr>OLLAMA_MODEL := var\<rparr>)) = []"
proof -
  let ?kvs' = "AList.update prompt (JString (strip raw)) kvs"
  let ?w' = "(snd (call_llm out prompt True w))\<lparr>OLLAMA_MODEL := var\<rparr>"
  have "disk ?w' = Holds (JObject ?kvs')"
    using call_llm_stored(2) [OF miss ok reload wok] by simp
  moreover have "map_of ?kvs' prompt = Some (JString (strip raw))"
    by (simp add: update_conv')
  ultimately show ?thesis
    using call_llm_cached_outcome [of ?w' ?kvs' prompt "JString (strip raw)" out'] by blast
qed

theorem cache_ignores_model_witness:
  "fst (lookup_cache (disk (fresh Absent)) ''P'') = Miss
   \<and> generate (answering ''from the default model'') (ollama_model (OLLAMA_MODEL (fresh Absent))) ''P''
       = Inr ''from the default model''
   \<and> fst (reload_cache (meanwhile (answering ''from the default model'') (disk (fresh Absent))))
       = Inr (JObject [])
   \<and> write_fault (answering ''from the default model'') = None
   \<and> fst (call_llm (answering ''from llama3'') ''P'' True
        ((snd (call_llm (answering ''from the default model'') ''P'' True (fresh Absent)))
           \<lparr>OLLAMA_MODEL := Some ''llama3''\<rparr>))
       = Returned (JString ''from the default model'')
   \<and> filter is_generate
        (events_of (answering ''from llama3'') ''P'' True
          ((snd (call_llm (answering ''from the default model'') ''P'' True (fresh Absent)))
             \<lparr>OLLAMA_MODEL := Some ''llama3''\<rparr>)) = []"
proof -
  let ?out = "answering ''from the default model''"
  have miss: "fst (lookup_cache (disk (fresh Absent)) ''P'') = Miss"
    by (simp add: lookup_cache_def fresh_def)
  have ok: "generate ?out (ollama_model (OLLAMA_MODEL (fresh Absent))) ''P''
      = Inr ''from the default model''"
    by (simp add: answering_def)
  have reload: "fst (reload_cache (meanwhile ?out (disk (fresh Absent)))) = Inr (JObject [])"
    by (simp add: answering_def fresh_def)
  have wok: "write_fault ?out = None"
    by (simp add: answering_def)
  have s: "strip ''from the default model'' = ''from the default model''"
    by (simp add: strip_def py_isspace_def)
  show ?thesis
    using miss ok reload wok
      cache_ignores_model [OF miss ok reload wok, of "answering ''from llama3''" "Some ''llama3''"]
    by (simp add: s)
qed

text \<open>
  Claim C10. With \<^verbatim>\<open>use_cache=False\<close> the call makes no access to the cache file (no
  existence test, no read, no write), whether the endpoint call succeeds or fails. The file
  after the call is what the other processes made of it meanwhile; when nobody else touches
  it, it is the file from before the call.
\<close>

theorem disabled_cache_leaves_file_alone:
  "filter is_file_access (events_of out prompt False w) = []
   \<and> disk (snd (call_llm out prompt False w)) = meanwhile out (disk w)
   \<and> disk (snd (call_llm (out\<lparr>meanwhile := \<lambda>fs. fs\<rparr>) prompt False w)) = disk w"
  by (simp add: events_of_def call_llm_no_cache call_ollama_no_file_access)

theorem disabled_cache_leaves_file_alone_witness:
  "filter is_file_access
     (events_of (failing ''down'') ''P'' False (fresh (Holds (JObject [(''P'', JString ''old'')])))) = []
   \<and> disk (snd (call_llm (failing ''down'') ''P'' False (fresh (Holds (JObject [(''P'', JString ''old'')])))))
       = Holds (JObject [(''P'', JString ''old'')])
   \<and> disk (snd (call_llm (answering ''new'') ''P'' False (fresh (Holds (JObject [(''P'', JString ''old'')])))))
       = Holds (JObject [(''P'', JString ''old'')])"
  using disabled_cache_leaves_file_alone
      [of "failing ''down''" "''P''" "fresh (Holds (JObject [(''P'', JString ''old'')]))"]
    disabled_cache_leaves_file_alone
      [of "answering ''new''" "''P''" "fresh (Holds (JObject [(''P'', JString ''old'')]))"]
  by (simp add: fresh_def failing_def answering_def)

end
